theory Spec2Isabelle
  imports
    Complex_Main
    "HOL-Library.Word"
    "HOL-Library.DAList"
    "HOL-Library.Multiset"
    "HOL-Library.Signed_Division"
begin

section \<open>The execution profile of \<^verbatim>\<open>hlo_execution_profile.cc\<close>\<close>

subsection \<open>Data model\<close>

text \<open>
  \<^verbatim>\<open>uint64\<close> and \<^verbatim>\<open>int64\<close> are both 64-bit words; an \<^verbatim>\<open>int64\<close> is read with \<open>sint\<close>,
  a \<^verbatim>\<open>uint64\<close> with \<open>unat\<close> (the order \<open>\<le>\<close> on words is the unsigned one). The implicit
  conversion between the two keeps the bits, so it is the identity on \<open>64 word\<close>.
\<close>

type_synonym uint64 = "64 word"
type_synonym int64 = "64 word"

text \<open>
  Pointers are addresses; address 0 is \<^verbatim>\<open>nullptr\<close>. The instructions are owned by the
  graph, not by the profile: a heap gives the instruction object stored at an address.
\<close>

type_synonym HloInstruction_ptr = nat
type_synonym HloComputation_ptr = nat

definition nullptr :: nat where
  "nullptr = 0"

record HloInstruction =
  parent :: HloComputation_ptr
  ToString_full :: string
  ToString_compact :: string
  ToCategory :: string

type_synonym heap = "HloInstruction_ptr \<Rightarrow> HloInstruction"

text \<open>
  Dereferencing \<^verbatim>\<open>nullptr\<close> (undefined behaviour) and a failed \<^verbatim>\<open>CHECK_GE\<close> (which aborts
  the process) are the two ways a call does not return.
\<close>

datatype error = NullDereference | CheckFailure

text \<open>
  \<^verbatim>\<open>hlo_to_cycles_taken_\<close> is an unordered map with unique keys: an association list with
  distinct keys, whose list order stands for the iteration order of the container.
  \<^verbatim>\<open>profiled_computations_\<close> is an unordered set that this file only inserts into.
\<close>

record HloExecutionProfile =
  hlo_to_cycles_taken :: "(HloInstruction_ptr, uint64) alist"
  profiled_computations :: "HloComputation_ptr set"

definition empty_profile :: HloExecutionProfile where
  "empty_profile = \<lparr>hlo_to_cycles_taken = DAList.empty, profiled_computations = {}\<rparr>"

subsection \<open>Ingest and point query\<close>

text \<open>
  \<^verbatim>\<open>AddProfileResult\<close>, lines 33 to 37: the assignment through \<^verbatim>\<open>operator[]\<close> inserts or
  overwrites, then \<^verbatim>\<open>hlo->parent()\<close> dereferences the pointer.
\<close>

definition AddProfileResult ::
  "heap \<Rightarrow> HloExecutionProfile \<Rightarrow> HloInstruction_ptr \<Rightarrow> uint64 \<Rightarrow> error + HloExecutionProfile"
where
  "AddProfileResult h p hlo cycles_taken =
     (let p1 = p\<lparr>hlo_to_cycles_taken := DAList.update hlo cycles_taken (hlo_to_cycles_taken p)\<rparr>
      in if hlo = nullptr then Inl NullDereference
         else Inr (p1\<lparr>profiled_computations :=
                        insert (parent (h hlo)) (profiled_computations p1)\<rparr>))"

text \<open>
  \<^verbatim>\<open>GetProfileResult\<close>, lines 39 to 45. The argument is a reference; only its address is
  used.
\<close>

definition GetProfileResult :: "HloExecutionProfile \<Rightarrow> HloInstruction_ptr \<Rightarrow> uint64" where
  "GetProfileResult p hlo =
     (case DAList.lookup (hlo_to_cycles_taken p) hlo of
        None \<Rightarrow> 0
      | Some cycles_taken \<Rightarrow> cycles_taken)"

subsection \<open>External collaborators of the report\<close>

text \<open>
  The report works in \<^verbatim>\<open>double\<close> arithmetic. The type \<open>'d\<close> of doubles and its operations
  are left open, so nothing below depends on how a conversion or a division rounds:
  \<open>literal m e\<close> is the double written with mantissa \<open>m\<close> and decimal exponent \<open>e\<close> in the
  source (\<^verbatim>\<open>1e-9\<close>, \<^verbatim>\<open>1e9\<close>, \<^verbatim>\<open>1000.0\<close>, \<^verbatim>\<open>100\<close>, \<^verbatim>\<open>0\<close>), \<open>fge\<close> is \<^verbatim>\<open>>=\<close> on doubles.
\<close>

record 'd double_ops =
  int64_to_double :: "int64 \<Rightarrow> 'd"
  uint64_to_double :: "uint64 \<Rightarrow> 'd"
  double_to_int64 :: "'d \<Rightarrow> int64"
  literal :: "int \<Rightarrow> int \<Rightarrow> 'd"
  fdiv :: "'d \<Rightarrow> 'd \<Rightarrow> 'd"
  fmul :: "'d \<Rightarrow> 'd \<Rightarrow> 'd"
  fge :: "'d \<Rightarrow> 'd \<Rightarrow> bool"

text \<open>Integer division of two \<^verbatim>\<open>int64\<close> values truncates towards zero.\<close>

definition int64_div :: "int64 \<Rightarrow> int64 \<Rightarrow> int64" where
  "int64_div a b = word_of_int (sint a sdiv sint b)"

typedecl Shape

type_synonym ShapeSizeFunction = "Shape \<Rightarrow> int64"

record HloComputation =
  address :: HloComputation_ptr
  name :: string
  root_instruction :: HloInstruction_ptr

record 'd DeviceDescription =
  clock_rate_ghz :: 'd

text \<open>
  What the cost analysis holds after the visit of \<^verbatim>\<open>Accept\<close>: the status of the visit and
  the two tables the report reads.
\<close>

record HloCostAnalysis =
  analysis_status_ok :: bool
  flop_count :: "HloInstruction_ptr \<Rightarrow> int64"
  bytes_accessed :: "HloInstruction_ptr \<Rightarrow> int64"

type_synonym Item = "HloInstruction_ptr \<times> uint64"

datatype 'd printf_arg = LongLong int64 | Double 'd | CStr string

record 'd Entry =
  entry_text :: string
  short_text :: string
  category_text :: string
  metric :: 'd

text \<open>
  A \<^verbatim>\<open>MetricTableReport\<close> is known here only through the calls made on it, so a table is
  the sequence of those calls, in order; \<^verbatim>\<open>MakeReport\<close> renders it.
\<close>

datatype 'd table_call =
  SetMetricName string
| SetEntryName string
| SetShowCategoryTable
| AddEntry "'d Entry"

text \<open>
  The library and repository functions that the file calls and does not define:
  \<^verbatim>\<open>std::sort\<close> (with its comparator), \<^verbatim>\<open>Accept\<close> with a fresh \<^verbatim>\<open>HloCostAnalysis\<close>,
  \<^verbatim>\<open>total_cycles_executed\<close> (declared in the header), the string formatters and
  \<^verbatim>\<open>MakeReport\<close>. \<^verbatim>\<open>HumanReadableNumBytes\<close> takes an \<^verbatim>\<open>int64\<close>; a double argument is
  converted first.
\<close>

record 'd externals =
  fp :: "'d double_ops"
  std_sort :: "(Item \<Rightarrow> Item \<Rightarrow> bool) \<Rightarrow> Item list \<Rightarrow> Item list"
  Accept :: "HloInstruction_ptr \<Rightarrow> ShapeSizeFunction \<Rightarrow> HloCostAnalysis"
  total_cycles_executed :: "HloComputation_ptr \<Rightarrow> int64"
  Printf :: "string \<Rightarrow> 'd printf_arg list \<Rightarrow> string"
  HumanReadableNumBytes :: "int64 \<Rightarrow> string"
  HumanReadableNumFlops :: "int64 \<Rightarrow> 'd \<Rightarrow> string"
  HumanReadableElapsedTime :: "'d \<Rightarrow> string"
  MakeReport :: "'d table_call list \<Rightarrow> 'd \<Rightarrow> string"

subsection \<open>Report generation\<close>

text \<open>Lines 59 to 65: the loop over the map that fills the vector \<^verbatim>\<open>items\<close>.\<close>

fun collect_items :: "heap \<Rightarrow> HloComputation_ptr \<Rightarrow> Item list \<Rightarrow> Item list \<Rightarrow> error + Item list"
where
  "collect_items h computation [] items = Inr items"
| "collect_items h computation (item # rest) items =
     (if fst item = nullptr then Inl NullDereference
      else if parent (h (fst item)) = computation
           then collect_items h computation rest (items @ [item])
           else collect_items h computation rest items)"

text \<open>Lines 66 to 68: the comparator, on the unsigned cycle counts.\<close>

definition custom_less :: "Item \<Rightarrow> Item \<Rightarrow> bool" where
  "custom_less lhs rhs = (snd lhs > snd rhs)"

text \<open>Lines 75 to 77.\<close>

definition cycles_to_microseconds :: "'d double_ops \<Rightarrow> 'd \<Rightarrow> 'd \<Rightarrow> 'd" where
  "cycles_to_microseconds f clock_rate cycles =
     fdiv f (fdiv f cycles clock_rate) (literal f 1000 0)"

text \<open>
  A row is the seven values that \<^verbatim>\<open>append_item\<close> hands to \<^verbatim>\<open>Printf\<close>, in the order of the
  format string.
\<close>

record 'd row =
  row_cycles :: int64
  row_cycles_percent :: 'd
  row_usec :: 'd
  row_flops :: string
  row_bytes_per_sec :: string
  row_bytes_per_cycle :: string
  row_name :: string

definition row_format :: string where
  "row_format =
     ''%15lld cycles (%6.2f%%) :: %12.1f usec @ f_nom :: %18s :: %12s/s :: %12s/cycle :: %s''"

definition row_args :: "'d row \<Rightarrow> 'd printf_arg list" where
  "row_args r =
     [LongLong (row_cycles r), Double (row_cycles_percent r), Double (row_usec r),
      CStr (row_flops r), CStr (row_bytes_per_sec r), CStr (row_bytes_per_cycle r),
      CStr (row_name r)]"

text \<open>Lines 81 to 97 and the argument list of lines 106 to 108.\<close>

definition make_row :: "'d externals \<Rightarrow> int64 \<Rightarrow> 'd \<Rightarrow> int64 \<Rightarrow> int64 \<Rightarrow> int64 \<Rightarrow> string \<Rightarrow> 'd row"
where
  "make_row x total_cycles clock_rate cycles flops bytes nm =
     (let f = fp x;
          nsecs = fdiv f (int64_to_double f cycles) clock_rate;
          unknown = (sint cycles \<le> 0 \<or> sint bytes < 0);
          bytes_per_sec =
            (if unknown then ''<unknown>''
             else HumanReadableNumBytes x
                    (double_to_int64 f
                       (fdiv f (int64_to_double f bytes) (fdiv f nsecs (literal f 1 9)))));
          bytes_per_cycle =
            (if unknown then ''<unknown>''
             else HumanReadableNumBytes x (int64_div bytes cycles));
          cycles_percent =
            (if 0 < sint total_cycles
             then fmul f (fdiv f (int64_to_double f cycles) (int64_to_double f total_cycles))
                    (literal f 100 0)
             else literal f 0 0)
      in \<lparr>row_cycles = cycles,
          row_cycles_percent = cycles_percent,
          row_usec = cycles_to_microseconds f clock_rate (int64_to_double f cycles),
          row_flops = (if sint flops \<le> 0 then ''<none>'' else HumanReadableNumFlops x flops nsecs),
          row_bytes_per_sec = bytes_per_sec,
          row_bytes_per_cycle = bytes_per_cycle,
          row_name = nm\<rparr>)"

text \<open>Lines 79 to 109: \<^verbatim>\<open>append_item\<close> appends the formatted row to \<^verbatim>\<open>result\<close>.\<close>

definition append_item ::
  "'d externals \<Rightarrow> int64 \<Rightarrow> 'd \<Rightarrow> string \<Rightarrow> int64 \<Rightarrow> int64 \<Rightarrow> int64 \<Rightarrow> string \<Rightarrow> string"
where
  "append_item x total_cycles clock_rate result cycles flops bytes nm =
     result @ Printf x row_format (row_args (make_row x total_cycles clock_rate cycles flops bytes nm))"

definition newline_tab :: string where
  "newline_tab = [CHR 0x0A, CHR 0x09]"

definition header_format :: string where
  "header_format = ''HLO execution profile for %s: (%s @ f_nom)'' @ newline_tab"

definition zero_cycles_marker :: string where
  "zero_cycles_marker = ''****** 0 total cycles ******'' @ [CHR 0x0A]"

text \<open>
  Lines 119 to 127: one row per element of \<^verbatim>\<open>items\<close>, the stored \<^verbatim>\<open>uint64\<close> count passed
  where \<^verbatim>\<open>append_item\<close> takes an \<^verbatim>\<open>int64\<close>.
\<close>

fun emit_items ::
  "'d externals \<Rightarrow> heap \<Rightarrow> HloCostAnalysis \<Rightarrow> int64 \<Rightarrow> 'd \<Rightarrow> Item list \<Rightarrow> string \<Rightarrow> string"
where
  "emit_items x h cost_analysis total_cycles clock_rate [] result = result"
| "emit_items x h cost_analysis total_cycles clock_rate (item # rest) result =
     (let hlo = fst item;
          result1 = result @ newline_tab;
          flops = (if hlo = nullptr then - 1 else flop_count cost_analysis hlo);
          bytes = (if hlo = nullptr then - 1 else bytes_accessed cost_analysis hlo);
          display = (if hlo = nullptr then ''<none>'' else ToString_full (h hlo))
      in emit_items x h cost_analysis total_cycles clock_rate rest
           (append_item x total_cycles clock_rate result1 (snd item) flops bytes display))"

text \<open>Lines 136 to 143: one \<^verbatim>\<open>AddEntry\<close> per element of \<^verbatim>\<open>items\<close>; each dereferences its node.\<close>

fun add_entries ::
  "'d double_ops \<Rightarrow> heap \<Rightarrow> 'd \<Rightarrow> Item list \<Rightarrow> 'd table_call list \<Rightarrow> error + 'd table_call list"
where
  "add_entries f h clock_rate [] table = Inr table"
| "add_entries f h clock_rate (item # rest) table =
     (if fst item = nullptr then Inl NullDereference
      else add_entries f h clock_rate rest
             (table @
              [AddEntry \<lparr>entry_text = ToString_full (h (fst item)),
                         short_text = ToString_compact (h (fst item)),
                         category_text = ToCategory (h (fst item)),
                         metric = cycles_to_microseconds f clock_rate
                                    (uint64_to_double f (snd item))\<rparr>]))"

text \<open>
  \<^verbatim>\<open>HloExecutionProfile::ToString\<close>, lines 47 to 148. The call of \<^verbatim>\<open>Accept\<close> dereferences
  the root instruction of the computation.
\<close>

definition ToString ::
  "'d externals \<Rightarrow> heap \<Rightarrow> HloExecutionProfile \<Rightarrow> HloComputation \<Rightarrow> 'd DeviceDescription \<Rightarrow>
   ShapeSizeFunction \<Rightarrow> error + string"
where
  "ToString x h p computation device_description shape_size =
     (if root_instruction computation = nullptr then Inl NullDereference
      else
        let cost_analysis = Accept x (root_instruction computation) shape_size
        in
         if \<not> analysis_status_ok cost_analysis then Inr ''''
         else
           case collect_items h (address computation)
                  (DAList.impl_of (hlo_to_cycles_taken p)) [] of
             Inl e \<Rightarrow> Inl e
           | Inr unsorted \<Rightarrow>
               let f = fp x;
                   items = std_sort x custom_less unsorted;
                   total_cycles = total_cycles_executed x (address computation);
                   clock_rate = clock_rate_ghz device_description
               in if \<not> fge f clock_rate (literal f 1 (- 9)) then Inl CheckFailure
                  else
                    let result0 =
                          Printf x header_format
                            [CStr (name computation),
                             CStr (HumanReadableElapsedTime x
                                     (fdiv f (fdiv f (int64_to_double f total_cycles) clock_rate)
                                        (literal f 1 9)))];
                        result1 = append_item x total_cycles clock_rate result0 total_cycles
                                    (- 1) (- 1) ''[total]'';
                        result2 = emit_items x h cost_analysis total_cycles clock_rate items result1
                    in if sint total_cycles \<le> 0 then Inr (result2 @ zero_cycles_marker)
                       else
                         (case add_entries f h clock_rate items
                                 [SetMetricName ''microseconds'', SetEntryName ''ops'',
                                  SetShowCategoryTable] of
                            Inl e \<Rightarrow> Inl e
                          | Inr table \<Rightarrow>
                              Inr (result2 @
                                   MakeReport x table
                                     (cycles_to_microseconds f clock_rate
                                        (int64_to_double f total_cycles)))))"

subsection \<open>The profile as a state machine\<close>

text \<open>
  The three operations of the file on one profile. \<^verbatim>\<open>GetProfileResult\<close> and \<^verbatim>\<open>ToString\<close>
  are \<^verbatim>\<open>const\<close> member functions and assign to no member; a call that does not return
  ends the run.
\<close>

datatype 'd operation =
  OpAddProfileResult HloInstruction_ptr uint64
| OpGetProfileResult HloInstruction_ptr
| OpToString HloComputation "'d DeviceDescription" ShapeSizeFunction

fun step :: "'d externals \<Rightarrow> heap \<Rightarrow> HloExecutionProfile \<Rightarrow> 'd operation \<Rightarrow> error + HloExecutionProfile"
where
  "step x h p (OpAddProfileResult hlo cycles_taken) = AddProfileResult h p hlo cycles_taken"
| "step x h p (OpGetProfileResult hlo) = (let r = GetProfileResult p hlo in Inr p)"
| "step x h p (OpToString computation device_description shape_size) =
     (case ToString x h p computation device_description shape_size of
        Inl e \<Rightarrow> Inl e
      | Inr report \<Rightarrow> Inr p)"

fun run :: "'d externals \<Rightarrow> heap \<Rightarrow> HloExecutionProfile \<Rightarrow> 'd operation list \<Rightarrow> error + HloExecutionProfile"
where
  "run x h p [] = Inr p"
| "run x h p (op # ops) =
     (case step x h p op of
        Inl e \<Rightarrow> Inl e
      | Inr p' \<Rightarrow> run x h p' ops)"

subsection \<open>Notions used to state the properties\<close>

text \<open>The cycle counts that a history of operations passed to \<^verbatim>\<open>AddProfileResult\<close> for one node.\<close>

fun cycles_added :: "HloInstruction_ptr \<Rightarrow> 'd operation list \<Rightarrow> uint64 list" where
  "cycles_added hlo [] = []"
| "cycles_added hlo (OpAddProfileResult hlo' cycles_taken # ops) =
     (if hlo' = hlo then cycles_taken # cycles_added hlo ops else cycles_added hlo ops)"
| "cycles_added hlo (OpGetProfileResult hlo' # ops) = cycles_added hlo ops"
| "cycles_added hlo (OpToString computation device_description shape_size # ops) =
     cycles_added hlo ops"

fun read_only :: "'d operation \<Rightarrow> bool" where
  "read_only (OpAddProfileResult hlo cycles_taken) = False"
| "read_only (OpGetProfileResult hlo) = True"
| "read_only (OpToString computation device_description shape_size) = True"

text \<open>
  What the C++ standard promises of \<^verbatim>\<open>std::sort\<close> called with \<^verbatim>\<open>custom_less\<close>: the result
  is a rearrangement of the input in which no element is \<^verbatim>\<open>custom_less\<close> than an earlier
  one. The order of elements that compare equal is left to the implementation.
\<close>

definition std_sort_contract :: "((Item \<Rightarrow> Item \<Rightarrow> bool) \<Rightarrow> Item list \<Rightarrow> Item list) \<Rightarrow> bool" where
  "std_sort_contract srt =
     (\<forall>xs. mset (srt custom_less xs) = mset xs \<and>
           sorted_wrt (\<lambda>a b. \<not> custom_less b a) (srt custom_less xs))"

text \<open>The observations of the store, and the vector \<^verbatim>\<open>items\<close> as it stands after line 69.\<close>

definition observations :: "HloExecutionProfile \<Rightarrow> Item list" where
  "observations p = DAList.impl_of (hlo_to_cycles_taken p)"

definition report_items :: "'d externals \<Rightarrow> heap \<Rightarrow> HloExecutionProfile \<Rightarrow> HloComputation \<Rightarrow> Item list"
where
  "report_items x h p computation =
     std_sort x custom_less
       (filter (\<lambda>item. parent (h (fst item)) = address computation) (observations p))"

text \<open>The row of line 118 and the row that lines 120 to 126 build for an element of \<^verbatim>\<open>items\<close>.\<close>

definition total_row :: "'d externals \<Rightarrow> int64 \<Rightarrow> 'd \<Rightarrow> 'd row" where
  "total_row x total_cycles clock_rate =
     make_row x total_cycles clock_rate total_cycles (- 1) (- 1) ''[total]''"

definition item_row :: "'d externals \<Rightarrow> heap \<Rightarrow> HloCostAnalysis \<Rightarrow> int64 \<Rightarrow> 'd \<Rightarrow> Item \<Rightarrow> 'd row" where
  "item_row x h cost_analysis total_cycles clock_rate item =
     make_row x total_cycles clock_rate (snd item)
       (if fst item = nullptr then - 1 else flop_count cost_analysis (fst item))
       (if fst item = nullptr then - 1 else bytes_accessed cost_analysis (fst item))
       (if fst item = nullptr then ''<none>'' else ToString_full (h (fst item)))"

definition render :: "'d externals \<Rightarrow> 'd row \<Rightarrow> string" where
  "render x r = Printf x row_format (row_args r)"

definition report_header :: "'d externals \<Rightarrow> HloComputation \<Rightarrow> int64 \<Rightarrow> 'd \<Rightarrow> string" where
  "report_header x computation total_cycles clock_rate =
     Printf x header_format
       [CStr (name computation),
        CStr (HumanReadableElapsedTime x
                (fdiv (fp x) (fdiv (fp x) (int64_to_double (fp x) total_cycles) clock_rate)
                   (literal (fp x) 1 9)))]"

text \<open>
  The flat report: the header, then the rows one after the other, each row after the first
  preceded by a newline and a tab.
\<close>

definition flat_report :: "'d externals \<Rightarrow> string \<Rightarrow> 'd row \<Rightarrow> 'd row list \<Rightarrow> string" where
  "flat_report x header first_row more_rows =
     header @ render x first_row @ concat (map (\<lambda>r. newline_tab @ render x r) more_rows)"

definition table_entry :: "'d double_ops \<Rightarrow> heap \<Rightarrow> 'd \<Rightarrow> Item \<Rightarrow> 'd Entry" where
  "table_entry f h clock_rate item =
     \<lparr>entry_text = ToString_full (h (fst item)),
      short_text = ToString_compact (h (fst item)),
      category_text = ToCategory (h (fst item)),
      metric = cycles_to_microseconds f clock_rate (uint64_to_double f (snd item))\<rparr>"

text \<open>Rows in non-increasing order of the cycle count they print, a signed number.\<close>

definition rows_non_increasing :: "'d row list \<Rightarrow> bool" where
  "rows_non_increasing rows =
     sorted_wrt (\<lambda>r s. sint (row_cycles s) \<le> sint (row_cycles r)) rows"

text \<open>What lines 129 to 145 append after the flat report.\<close>

definition report_tail :: "'d externals \<Rightarrow> heap \<Rightarrow> int64 \<Rightarrow> 'd \<Rightarrow> Item list \<Rightarrow> string" where
  "report_tail x h total_cycles clock_rate items =
     (if sint total_cycles \<le> 0 then zero_cycles_marker
      else MakeReport x
             ([SetMetricName ''microseconds'', SetEntryName ''ops'', SetShowCategoryTable] @
              map (\<lambda>item. AddEntry (table_entry (fp x) h clock_rate item)) items)
             (cycles_to_microseconds (fp x) clock_rate
                (int64_to_double (fp x) total_cycles)))"

text \<open>What the inputs of a call of \<^verbatim>\<open>ToString\<close> must meet for the call to return a report.\<close>

definition report_inputs_ok ::
  "'d externals \<Rightarrow> HloExecutionProfile \<Rightarrow> HloComputation \<Rightarrow> 'd DeviceDescription \<Rightarrow>
   ShapeSizeFunction \<Rightarrow> bool"
where
  "report_inputs_ok x p computation device_description shape_size =
     (std_sort_contract (std_sort x) \<and>
      root_instruction computation \<noteq> nullptr \<and>
      analysis_status_ok (Accept x (root_instruction computation) shape_size) \<and>
      DAList.lookup (hlo_to_cycles_taken p) nullptr = None \<and>
      fge (fp x) (clock_rate_ghz device_description) (literal (fp x) 1 (- 9)))"

text \<open>The parts of the report of one call, from the arguments of the call.\<close>

definition header_of :: "'d externals \<Rightarrow> HloComputation \<Rightarrow> 'd DeviceDescription \<Rightarrow> string" where
  "header_of x computation device_description =
     report_header x computation (total_cycles_executed x (address computation))
       (clock_rate_ghz device_description)"

definition total_row_of :: "'d externals \<Rightarrow> HloComputation \<Rightarrow> 'd DeviceDescription \<Rightarrow> 'd row" where
  "total_row_of x computation device_description =
     total_row x (total_cycles_executed x (address computation))
       (clock_rate_ghz device_description)"

definition node_rows ::
  "'d externals \<Rightarrow> heap \<Rightarrow> HloExecutionProfile \<Rightarrow> HloComputation \<Rightarrow> 'd DeviceDescription \<Rightarrow>
   ShapeSizeFunction \<Rightarrow> 'd row list"
where
  "node_rows x h p computation device_description shape_size =
     map (item_row x h (Accept x (root_instruction computation) shape_size)
            (total_cycles_executed x (address computation))
            (clock_rate_ghz device_description))
       (report_items x h p computation)"

definition tail_of ::
  "'d externals \<Rightarrow> heap \<Rightarrow> HloExecutionProfile \<Rightarrow> HloComputation \<Rightarrow> 'd DeviceDescription \<Rightarrow>
   string"
where
  "tail_of x h p computation device_description =
     report_tail x h (total_cycles_executed x (address computation))
       (clock_rate_ghz device_description) (report_items x h p computation)"

subsection \<open>A concrete world\<close>

text \<open>
  Three instructions: those at addresses 1 and 2 belong to the computation at address 10,
  the one at address 3 to the computation at address 20. Doubles are rationals here, the
  sort is an insertion sort, and the formatters are simple stand-ins: the stand-in for
  \<^verbatim>\<open>Printf\<close> writes its arguments one after the other, each followed by a semicolon, an
  integer in decimal and a double as \<open>#.#\<close> with its sign.
\<close>

fun insert_by :: "('a \<Rightarrow> 'a \<Rightarrow> bool) \<Rightarrow> 'a \<Rightarrow> 'a list \<Rightarrow> 'a list" where
  "insert_by lt a [] = [a]"
| "insert_by lt a (b # bs) = (if lt a b then a # b # bs else b # insert_by lt a bs)"

fun insertion_sort :: "('a \<Rightarrow> 'a \<Rightarrow> bool) \<Rightarrow> 'a list \<Rightarrow> 'a list" where
  "insertion_sort lt [] = []"
| "insertion_sort lt (a # as) = insert_by lt a (insertion_sort lt as)"

definition demo_heap :: heap where
  "demo_heap a =
     (if a = 1 then \<lparr>parent = 10, ToString_full = ''%a = add(%x, %y)'',
                     ToString_compact = ''%a = add'', ToCategory = ''add''\<rparr>
      else if a = 2 then \<lparr>parent = 10, ToString_full = ''%b = dot(%x, %y)'',
                          ToString_compact = ''%b = dot'', ToCategory = ''dot''\<rparr>
      else \<lparr>parent = 20, ToString_full = ''%c = exp(%z)'',
            ToString_compact = ''%c = exp'', ToCategory = ''exp''\<rparr>)"

definition demo_ops :: "rat double_ops" where
  "demo_ops =
     \<lparr>int64_to_double = (\<lambda>w. of_int (sint w)),
      uint64_to_double = (\<lambda>w. of_int (uint w)),
      double_to_int64 = (\<lambda>q. word_of_int \<lfloor>q\<rfloor>),
      literal = (\<lambda>m e. if 0 \<le> e then of_int (m * 10 ^ nat e) else of_int m / of_int (10 ^ nat (- e))),
      fdiv = (\<lambda>a b. a / b),
      fmul = (\<lambda>a b. a * b),
      fge = (\<lambda>a b. b \<le> a)\<rparr>"

fun show_nat :: "nat \<Rightarrow> string" where
  "show_nat n =
     (if n < 10 then [''0123456789'' ! n]
      else show_nat (n div 10) @ [''0123456789'' ! (n mod 10)])"

declare show_nat.simps [simp del]

definition show_int :: "int \<Rightarrow> string" where
  "show_int i = (if i < 0 then CHR ''-'' # show_nat (nat (- i)) else show_nat (nat i))"

fun demo_arg :: "rat printf_arg \<Rightarrow> string" where
  "demo_arg (LongLong w) = show_int (sint w)"
| "demo_arg (Double q) = (if q < 0 then ''-#.#'' else ''#.#'')"
| "demo_arg (CStr s) = s"

fun demo_call :: "rat table_call \<Rightarrow> string" where
  "demo_call (SetMetricName s) = ''metric='' @ s @ '';''"
| "demo_call (SetEntryName s) = ''entry='' @ s @ '';''"
| "demo_call SetShowCategoryTable = ''categories;''"
| "demo_call (AddEntry e) =
     entry_text e @ ''|'' @ short_text e @ ''|'' @ category_text e @ '';''"

definition demo_externals :: "bool \<Rightarrow> int64 \<Rightarrow> rat externals" where
  "demo_externals analysis_ok total_cycles =
     \<lparr>fp = demo_ops,
      std_sort = insertion_sort,
      Accept = (\<lambda>root shape_size.
                  \<lparr>analysis_status_ok = analysis_ok,
                   flop_count = (\<lambda>hlo. 2000),
                   bytes_accessed = (\<lambda>hlo. 4096)\<rparr>),
      total_cycles_executed = (\<lambda>computation. total_cycles),
      Printf = (\<lambda>format args. concat (map (\<lambda>a. demo_arg a @ '';'') args)),
      HumanReadableNumBytes = (\<lambda>n. ''#B''),
      HumanReadableNumFlops = (\<lambda>flops nsecs. ''#FLOP/s''),
      HumanReadableElapsedTime = (\<lambda>seconds. ''#s''),
      MakeReport = (\<lambda>table expected. concat (map demo_call table))\<rparr>"

definition demo_computation :: HloComputation where
  "demo_computation = \<lparr>address = 10, name = ''entry'', root_instruction = 2\<rparr>"

definition demo_device :: "rat DeviceDescription" where
  "demo_device = \<lparr>clock_rate_ghz = 1\<rparr>"

definition demo_shape_size :: ShapeSizeFunction where
  "demo_shape_size s = 8"

definition demo_profile :: HloExecutionProfile where
  "demo_profile =
     \<lparr>hlo_to_cycles_taken =
        DAList.update 3 50 (DAList.update 2 300 (DAList.update 1 100 DAList.empty)),
      profiled_computations = {10, 20}\<rparr>"

text \<open>A second store for the same world: a count of \<open>2 ^ 63\<close> cycles beside a count of 1.\<close>

definition demo_profile_large :: HloExecutionProfile where
  "demo_profile_large =
     \<lparr>hlo_to_cycles_taken =
        DAList.update 2 1 (DAList.update 1 0x8000000000000000 DAList.empty),
      profiled_computations = {10}\<rparr>"

section \<open>Properties of the store\<close>

lemma GetProfileResult_Add:
  "AddProfileResult h p hlo c = Inr p' \<Longrightarrow>
   GetProfileResult p' b = (if b = hlo then c else GetProfileResult p b)"
  by (auto simp: AddProfileResult_def GetProfileResult_def Let_def split: if_splits)

lemma step_read_only: "read_only op \<Longrightarrow> step x h p op = Inr p' \<Longrightarrow> p' = p"
  by (cases op) (auto split: sum.splits)

lemma run_read_only: "list_all read_only ops \<Longrightarrow> run x h p ops = Inr p' \<Longrightarrow> p' = p"
proof (induction ops arbitrary: p)
  case Nil
  then show ?case by simp
next
  case (Cons op ops)
  then obtain p1 where p1: "step x h p op = Inr p1" and rest: "run x h p1 ops = Inr p'"
    by (auto split: sum.splits)
  from Cons.prems(1) p1 have "p1 = p" by (auto dest: step_read_only)
  with Cons rest show ?case by simp
qed

lemma GetProfileResult_step:
  "step x h p op = Inr p' \<Longrightarrow>
   GetProfileResult p' b =
     (if cycles_added b [op] = [] then GetProfileResult p b else last (cycles_added b [op]))"
  by (cases op) (auto split: sum.splits simp: GetProfileResult_Add)

lemma cycles_added_Cons: "cycles_added b (op # ops) = cycles_added b [op] @ cycles_added b ops"
  by (cases op) auto

lemma GetProfileResult_run:
  "run x h p ops = Inr p' \<Longrightarrow>
   GetProfileResult p' b =
     (if cycles_added b ops = [] then GetProfileResult p b else last (cycles_added b ops))"
proof (induction ops arbitrary: p)
  case Nil
  then show ?case by simp
next
  case (Cons op ops)
  then obtain p1 where p1: "step x h p op = Inr p1" and rest: "run x h p1 ops = Inr p'"
    by (auto split: sum.splits)
  show ?case
    using Cons.IH [OF rest] GetProfileResult_step [OF p1, of b]
    by (subst (1 2) cycles_added_Cons) auto
qed

lemma run_adds_returns:
  "hlo \<noteq> nullptr \<Longrightarrow> \<exists>p'. run x h p (map (OpAddProfileResult hlo) cs) = Inr p'"
  by (induction cs arbitrary: p) (auto simp: AddProfileResult_def Let_def)

lemma cycles_added_same: "cycles_added hlo (map (OpAddProfileResult hlo) cs) = cs"
  by (induction cs) auto

lemma profiled_step:
  "step x h p op = Inr p' \<Longrightarrow> profiled_computations p \<subseteq> profiled_computations p'"
  by (cases op) (auto simp: AddProfileResult_def Let_def split: sum.splits if_splits)

lemma profiled_run:
  "run x h p ops = Inr p' \<Longrightarrow> profiled_computations p \<subseteq> profiled_computations p'"
proof (induction ops arbitrary: p)
  case Nil
  then show ?case by simp
next
  case (Cons op ops)
  then obtain p1 where p1: "step x h p op = Inr p1" and rest: "run x h p1 ops = Inr p'"
    by (auto split: sum.splits)
  from profiled_step [OF p1] Cons.IH [OF rest] show ?case by blast
qed

text \<open>No profile built through the operations has an entry for \<^verbatim>\<open>nullptr\<close>.\<close>

lemma step_no_nullptr:
  "step x h p op = Inr p' \<Longrightarrow> DAList.lookup (hlo_to_cycles_taken p) nullptr = None \<Longrightarrow>
   DAList.lookup (hlo_to_cycles_taken p') nullptr = None"
  by (cases op) (auto simp: AddProfileResult_def Let_def split: sum.splits if_splits)

lemma run_no_nullptr:
  "run x h p ops = Inr p' \<Longrightarrow> DAList.lookup (hlo_to_cycles_taken p) nullptr = None \<Longrightarrow>
   DAList.lookup (hlo_to_cycles_taken p') nullptr = None"
proof (induction ops arbitrary: p)
  case Nil
  then show ?case by simp
next
  case (Cons op ops)
  then obtain p1 where p1: "step x h p op = Inr p1" and rest: "run x h p1 ops = Inr p'"
    by (auto split: sum.splits)
  from step_no_nullptr [OF p1 Cons.prems(2)] Cons.IH [OF rest] show ?case by simp
qed

lemma reachable_no_nullptr:
  "run x h empty_profile ops = Inr p \<Longrightarrow> DAList.lookup (hlo_to_cycles_taken p) nullptr = None"
  by (erule run_no_nullptr) (simp add: empty_profile_def)

section \<open>Signed and unsigned readings of a 64-bit value\<close>

lemma sint_small:
  fixes w :: "64 word"
  assumes "w < 2 ^ 63"
  shows "sint w = uint w"
proof -
  from assms have hi: "uint w < 2 ^ 63"
    by (simp add: word_less_def)
  have lo: "- (2 ^ 63) \<le> uint w"
    by (rule order_trans [of _ 0]) simp_all
  from lo hi have "signed_take_bit 63 (uint w) = uint w"
    by (simp only: signed_take_bit_int_eq_self_iff)
  then show ?thesis by (simp add: sint_uint)
qed

lemma sint_le_small:
  fixes a b :: "64 word"
  assumes "a < 2 ^ 63" "b < 2 ^ 63"
  shows "sint a \<le> sint b \<longleftrightarrow> a \<le> b"
  by (simp add: sint_small [OF assms(1)] sint_small [OF assms(2)] word_le_def)

lemma int64_div_nonneg:
  assumes "0 \<le> sint b" "0 < sint c"
  shows "int64_div b c = word_of_int (sint b div sint c)"
  using assms by (simp add: int64_div_def signed_divide_int_def sgn_if)

section \<open>Properties of the report\<close>

lemma collect_items_eq:
  "collect_items h c xs items =
     (if nullptr \<in> fst ` set xs then Inl NullDereference
      else Inr (items @ filter (\<lambda>item. parent (h (fst item)) = c) xs))"
  by (induction xs arbitrary: items) auto

lemma emit_items_eq:
  "emit_items x h ca tc clk items result =
     result @ concat (map (\<lambda>r. newline_tab @ render x r) (map (item_row x h ca tc clk) items))"
  by (induction items arbitrary: result)
     (simp_all add: Let_def append_item_def render_def item_row_def)

lemma add_entries_eq:
  "add_entries f h clk items table =
     (if nullptr \<in> fst ` set items then Inl NullDereference
      else Inr (table @ map (\<lambda>item. AddEntry (table_entry f h clk item)) items))"
  by (induction items arbitrary: table) (auto simp: table_entry_def)

lemma nullptr_observations:
  "nullptr \<in> fst ` set (observations p) \<longleftrightarrow>
   DAList.lookup (hlo_to_cycles_taken p) nullptr \<noteq> None"
  by (simp add: observations_def DAList.lookup.rep_eq map_of_eq_None_iff)

lemma distinct_observations: "distinct (observations p)"
  using DAList.impl_of_distinct [of "hlo_to_cycles_taken p"]
  by (simp add: observations_def distinct_map)

lemma contract_mset: "std_sort_contract srt \<Longrightarrow> mset (srt custom_less xs) = mset xs"
  by (simp add: std_sort_contract_def)

lemma contract_set: "std_sort_contract srt \<Longrightarrow> set (srt custom_less xs) = set xs"
  by (metis contract_mset set_mset_mset)

lemma contract_sorted:
  "std_sort_contract srt \<Longrightarrow> sorted_wrt (\<lambda>a b. snd b \<le> snd a) (srt custom_less xs)"
  by (simp add: std_sort_contract_def custom_less_def not_less)

text \<open>
  With inputs that let the call return, the result of \<^verbatim>\<open>ToString\<close> is the flat report of
  the total row and the rows of \<open>report_items\<close>, followed by the tail.
\<close>

lemma ToString_report:
  assumes "report_inputs_ok x p computation device_description shape_size"
  shows "ToString x h p computation device_description shape_size =
           Inr (flat_report x (header_of x computation device_description)
                  (total_row_of x computation device_description)
                  (node_rows x h p computation device_description shape_size) @
                tail_of x h p computation device_description)"
proof -
  from assms have srt: "std_sort_contract (std_sort x)"
    and root: "root_instruction computation \<noteq> nullptr"
    and ok: "analysis_status_ok (Accept x (root_instruction computation) shape_size)"
    and nonull: "nullptr \<notin> fst ` set (observations p)"
    and clock: "fge (fp x) (clock_rate_ghz device_description) (literal (fp x) 1 (- 9))"
    by (simp_all add: report_inputs_ok_def nullptr_observations)
  have collect: "collect_items h (address computation) (DAList.impl_of (hlo_to_cycles_taken p)) [] =
      Inr (filter (\<lambda>item. parent (h (fst item)) = address computation) (observations p))"
    using nonull by (simp add: collect_items_eq observations_def)
  have "nullptr \<notin> fst ` set (report_items x h p computation)"
    using nonull by (auto simp: report_items_def contract_set [OF srt])
  then have entries: "add_entries (fp x) h clk (report_items x h p computation) table =
      Inr (table @ map (\<lambda>item. AddEntry (table_entry (fp x) h clk item))
                     (report_items x h p computation))" for clk table
    by (simp add: add_entries_eq)
  show ?thesis
    unfolding ToString_def Let_def collect
    using root ok clock
    by (simp add: entries [unfolded report_items_def] emit_items_eq append_item_def
        flat_report_def report_header_def total_row_def render_def report_items_def
        report_tail_def header_of_def total_row_of_def node_rows_def tail_of_def)
qed

lemma count_report_items:
  assumes "std_sort_contract (std_sort x)"
  shows "count_list (report_items x h p computation) obs =
           (if obs \<in> set (observations p) \<and> parent (h (fst obs)) = address computation
            then 1 else 0)"
proof -
  let ?sel = "filter (\<lambda>item. parent (h (fst item)) = address computation) (observations p)"
  have "count_list (report_items x h p computation) obs = count (mset ?sel) obs"
    by (simp add: report_items_def contract_mset [OF assms] flip: count_mset)
  also have "\<dots> = (if obs \<in> set ?sel then 1 else 0)"
  proof -
    have "distinct ?sel" using distinct_observations [of p] by simp
    then show ?thesis using distinct_count_atmost_1 [of ?sel] by blast
  qed
  finally show ?thesis by auto
qed

lemma row_cycles_item_row [simp]: "row_cycles (item_row x h ca tc clk item) = snd item"
  by (simp add: item_row_def make_row_def Let_def)

section \<open>The concrete world meets the requirements\<close>

lemma mset_insert_by: "mset (insert_by lt a xs) = add_mset a (mset xs)"
  by (induction xs) auto

lemma mset_insertion_sort: "mset (insertion_sort lt xs) = mset xs"
  by (induction xs) (auto simp: mset_insert_by)

lemma set_insert_by: "set (insert_by lt a xs) = insert a (set xs)"
  by (induction xs) auto

lemma sorted_insert_by:
  "sorted_wrt (\<lambda>a b. \<not> custom_less b a) xs \<Longrightarrow>
   sorted_wrt (\<lambda>a b. \<not> custom_less b a) (insert_by custom_less a xs)"
  by (induction xs) (auto simp: set_insert_by custom_less_def)

lemma sorted_insertion_sort:
  "sorted_wrt (\<lambda>a b. \<not> custom_less b a) (insertion_sort custom_less xs)"
  by (induction xs) (auto simp: sorted_insert_by)

lemma insertion_sort_contract: "std_sort_contract insertion_sort"
  by (simp add: std_sort_contract_def mset_insertion_sort sorted_insertion_sort)

text \<open>
  The contract leaves the order of equal counts open: insertion sort of the input and
  insertion sort of the reversed input both meet it, and they order two equal counts
  differently.
\<close>

lemma tie_order_not_fixed:
  "std_sort_contract insertion_sort \<and>
   std_sort_contract (\<lambda>lt xs. insertion_sort lt (rev xs)) \<and>
   insertion_sort custom_less [(1, 5), (2, 5)] = [(2, 5), (1, 5)] \<and>
   insertion_sort custom_less (rev [(1, 5), (2, 5)]) = [(1, 5), (2, 5)]"
proof -
  have "std_sort_contract (\<lambda>lt xs. insertion_sort lt (rev xs))"
    by (simp add: std_sort_contract_def mset_insertion_sort sorted_insertion_sort)
  moreover have "insertion_sort custom_less [(1, 5), (2, 5)] = [(2, 5), (1, 5)]"
    by (simp add: custom_less_def)
  moreover have "insertion_sort custom_less (rev [(1, 5), (2, 5)]) = [(1, 5), (2, 5)]"
    by (simp add: custom_less_def)
  ultimately show ?thesis using insertion_sort_contract by blast
qed

lemma observations_demo: "observations demo_profile = [(1, 100), (2, 300), (3, 50)]"
  by (simp add: observations_def demo_profile_def DAList.update.rep_eq DAList.empty.rep_eq)

lemma demo_inputs_ok:
  "report_inputs_ok (demo_externals True t) demo_profile demo_computation demo_device
     demo_shape_size"
  by (simp add: report_inputs_ok_def demo_externals_def insertion_sort_contract demo_profile_def
      demo_computation_def demo_device_def demo_ops_def nullptr_def)

lemma report_items_demo:
  "report_items (demo_externals b t) demo_heap demo_profile demo_computation =
     [(2, 300), (1, 100)]"
  by (simp add: report_items_def observations_demo demo_externals_def demo_heap_def
      demo_computation_def custom_less_def)

lemmas demo_defs =
  header_of_def total_row_of_def node_rows_def tail_of_def flat_report_def report_header_def report_tail_def render_def row_args_def total_row_def
  item_row_def make_row_def table_entry_def Let_def demo_externals_def demo_ops_def
  show_int_def show_nat.simps
  demo_heap_def demo_computation_def demo_device_def nullptr_def cycles_to_microseconds_def

lemma demo_report_text:
  "ToString (demo_externals True 500) demo_heap demo_profile demo_computation demo_device
     demo_shape_size =
   Inr (''entry;#s;'' @
        ''500;#.#;#.#;<none>;<unknown>;<unknown>;[total];'' @ newline_tab @
        ''300;#.#;#.#;#FLOP/s;#B;#B;%b = dot(%x, %y);'' @ newline_tab @
        ''100;#.#;#.#;#FLOP/s;#B;#B;%a = add(%x, %y);'' @
        ''metric=microseconds;entry=ops;categories;'' @
        ''%b = dot(%x, %y)|%b = dot|dot;'' @
        ''%a = add(%x, %y)|%a = add|add;'')"
  unfolding ToString_report [OF demo_inputs_ok] node_rows_def tail_of_def report_items_demo
  by (simp add: demo_defs)

lemma observations_demo_large:
  "observations demo_profile_large = [(1, 0x8000000000000000), (2, 1)]"
  by (simp add: observations_def demo_profile_large_def DAList.update.rep_eq DAList.empty.rep_eq)

lemma demo_large_inputs_ok:
  "report_inputs_ok (demo_externals True t) demo_profile_large demo_computation demo_device
     demo_shape_size"
  by (simp add: report_inputs_ok_def demo_externals_def insertion_sort_contract
      demo_profile_large_def demo_computation_def demo_device_def demo_ops_def nullptr_def)

lemma report_items_demo_large:
  "report_items (demo_externals b t) demo_heap demo_profile_large demo_computation =
     [(1, 0x8000000000000000), (2, 1)]"
  by (simp add: report_items_def observations_demo_large demo_externals_def demo_heap_def
      demo_computation_def custom_less_def)

lemma demo_large_report_text:
  "ToString (demo_externals True 500) demo_heap demo_profile_large demo_computation demo_device
     demo_shape_size =
   Inr (''entry;#s;'' @
        ''500;#.#;#.#;<none>;<unknown>;<unknown>;[total];'' @ newline_tab @
        ''-9223372036854775808;-#.#;-#.#;#FLOP/s;<unknown>;<unknown>;%a = add(%x, %y);'' @ newline_tab @
        ''1;#.#;#.#;#FLOP/s;#B;#B;%b = dot(%x, %y);'' @
        ''metric=microseconds;entry=ops;categories;'' @
        ''%a = add(%x, %y)|%a = add|add;'' @
        ''%b = dot(%x, %y)|%b = dot|dot;'')"
  unfolding ToString_report [OF demo_large_inputs_ok] node_rows_def tail_of_def
    report_items_demo_large
  by (simp add: demo_defs)

lemma demo_report_text_zero:
  "ToString (demo_externals True 0) demo_heap demo_profile demo_computation demo_device
     demo_shape_size =
   Inr (''entry;#s;'' @
        ''0;#.#;#.#;<none>;<unknown>;<unknown>;[total];'' @ newline_tab @
        ''300;#.#;#.#;#FLOP/s;#B;#B;%b = dot(%x, %y);'' @ newline_tab @
        ''100;#.#;#.#;#FLOP/s;#B;#B;%a = add(%x, %y);'' @
        ''****** 0 total cycles ******'' @ [CHR 0x0A])"
  unfolding ToString_report [OF demo_inputs_ok] node_rows_def tail_of_def report_items_demo
  by (simp add: demo_defs zero_cycles_marker_def)

section \<open>The claims\<close>

text \<open>
  C1. When \<^verbatim>\<open>ToString\<close> produces a report, the report is the header, the row \<open>[total]\<close>, one
  row for each element of \<open>report_items\<close> in that order, and the tail; and every observation
  of the store occurs in \<open>report_items\<close> exactly once when the parent of its node is the
  address of the queried computation, and not at all otherwise.
\<close>

theorem C1_one_row_per_observation:
  assumes "report_inputs_ok x p computation device_description shape_size"
  shows "ToString x h p computation device_description shape_size =
           Inr (flat_report x (header_of x computation device_description)
                  (total_row_of x computation device_description)
                  (node_rows x h p computation device_description shape_size) @
                tail_of x h p computation device_description) \<and>
         row_name (total_row_of x computation device_description) = ''[total]'' \<and>
         node_rows x h p computation device_description shape_size =
           map (item_row x h (Accept x (root_instruction computation) shape_size)
                  (total_cycles_executed x (address computation))
                  (clock_rate_ghz device_description))
             (report_items x h p computation) \<and>
         (\<forall>obs. count_list (report_items x h p computation) obs =
                  (if obs \<in> set (observations p) \<and> parent (h (fst obs)) = address computation
                   then 1 else 0))"
proof -
  from assms have "std_sort_contract (std_sort x)" by (simp add: report_inputs_ok_def)
  then show ?thesis
    using ToString_report [OF assms, of h]
    by (simp add: count_report_items total_row_of_def total_row_def make_row_def Let_def
        node_rows_def)
qed

theorem C1_one_row_per_observation_witness:
  "report_inputs_ok (demo_externals True 500) demo_profile demo_computation demo_device
     demo_shape_size \<and>
   ToString (demo_externals True 500) demo_heap demo_profile demo_computation demo_device
     demo_shape_size =
   Inr (''entry;#s;'' @
        ''500;#.#;#.#;<none>;<unknown>;<unknown>;[total];'' @ newline_tab @
        ''300;#.#;#.#;#FLOP/s;#B;#B;%b = dot(%x, %y);'' @ newline_tab @
        ''100;#.#;#.#;#FLOP/s;#B;#B;%a = add(%x, %y);'' @
        ''metric=microseconds;entry=ops;categories;'' @
        ''%b = dot(%x, %y)|%b = dot|dot;'' @
        ''%a = add(%x, %y)|%a = add|add;'') \<and>
   observations demo_profile = [(1, 100), (2, 300), (3, 50)] \<and>
   count_list (report_items (demo_externals True 500) demo_heap demo_profile demo_computation)
     (1, 100) = 1 \<and>
   count_list (report_items (demo_externals True 500) demo_heap demo_profile demo_computation)
     (2, 300) = 1 \<and>
   count_list (report_items (demo_externals True 500) demo_heap demo_profile demo_computation)
     (3, 50) = 0"
  using C1_one_row_per_observation [OF demo_inputs_ok [of 500], of demo_heap]
    demo_report_text
  by (simp add: demo_inputs_ok observations_demo report_items_demo)

text \<open>
  For every sort that meets the contract of \<^verbatim>\<open>std::sort\<close>, so whatever order it gives to
  equal counts, the rows of the nodes stand in non-increasing order of the unsigned 64-bit
  cycle counts stored for their nodes. The cycle count of a row is the stored bit pattern
  read as a signed 64-bit number (line 126 passes the \<^verbatim>\<open>uint64\<close> where \<^verbatim>\<open>append_item\<close> takes
  an \<^verbatim>\<open>int64\<close>); the rows are in non-increasing order of that number when every stored
  count of the computation is below \<open>2 ^ 63\<close>.
\<close>

lemma rows_sorted_by_stored_count:
  assumes "report_inputs_ok x p computation device_description shape_size"
  shows "ToString x h p computation device_description shape_size =
           Inr (flat_report x (header_of x computation device_description)
                  (total_row_of x computation device_description)
                  (node_rows x h p computation device_description shape_size) @
                tail_of x h p computation device_description) \<and>
         map row_cycles (node_rows x h p computation device_description shape_size) =
           map snd (report_items x h p computation) \<and>
         sorted_wrt (\<lambda>a b. snd b \<le> snd a) (report_items x h p computation) \<and>
         (list_all (\<lambda>item. snd item < 2 ^ 63) (report_items x h p computation) \<longrightarrow>
          rows_non_increasing (node_rows x h p computation device_description shape_size))"
proof -
  from assms have srt: "std_sort_contract (std_sort x)" by (simp add: report_inputs_ok_def)
  have sorted: "sorted_wrt (\<lambda>a b. snd b \<le> snd a) (report_items x h p computation)"
    unfolding report_items_def by (rule contract_sorted [OF srt])
  have signed: "rows_non_increasing (node_rows x h p computation device_description shape_size)"
    if small: "list_all (\<lambda>item. snd item < 2 ^ 63) (report_items x h p computation)"
  proof -
    have "sorted_wrt (\<lambda>a b. sint (snd b) \<le> sint (snd a)) (report_items x h p computation)"
      using sorted
    proof (rule sorted_wrt_mono_rel [rotated])
      fix a b
      assume "a \<in> set (report_items x h p computation)"
        and "b \<in> set (report_items x h p computation)" and "snd b \<le> snd a"
      with small show "sint (snd b) \<le> sint (snd a)"
        by (simp add: list_all_iff sint_le_small)
    qed
    then show ?thesis by (simp add: rows_non_increasing_def node_rows_def sorted_wrt_map)
  qed
  show ?thesis
    using ToString_report [OF assms, of h] sorted signed
    by (simp add: node_rows_def comp_def)
qed

text \<open>
  C2. The rows of the nodes are to appear in non-increasing order of their cycle count.
  The code sorts the stored counts so, and then line 126 hands each unsigned count to the
  signed parameter of \<^verbatim>\<open>append_item\<close>. With \<open>2 ^ 63\<close> cycles stored for one node and 1 for
  another, the sort puts the node with \<open>2 ^ 63\<close> cycles first, and \<^verbatim>\<open>ToString\<close> returns a
  report whose first row of a node has the cycle count \<open>-9223372036854775808\<close> and a negative
  time, and whose second has the cycle count 1: the rows are not in non-increasing order of
  the counts they carry. The table entry that line 141 builds for the first node has the
  positive time of the unsigned count.
\<close>

theorem C2_rows_at_count_two_to_63:
  "observations demo_profile_large = [(1, 0x8000000000000000), (2, 1)] \<and>
   report_items (demo_externals True 500) demo_heap demo_profile_large demo_computation =
     [(1, 0x8000000000000000), (2, 1)] \<and>
   ToString (demo_externals True 500) demo_heap demo_profile_large demo_computation demo_device
     demo_shape_size =
   Inr (''entry;#s;'' @
        ''500;#.#;#.#;<none>;<unknown>;<unknown>;[total];'' @ newline_tab @
        ''-9223372036854775808;-#.#;-#.#;#FLOP/s;<unknown>;<unknown>;%a = add(%x, %y);'' @
        newline_tab @
        ''1;#.#;#.#;#FLOP/s;#B;#B;%b = dot(%x, %y);'' @
        ''metric=microseconds;entry=ops;categories;'' @
        ''%a = add(%x, %y)|%a = add|add;'' @
        ''%b = dot(%x, %y)|%b = dot|dot;'') \<and>
   map sint
     (map row_cycles
        (node_rows (demo_externals True 500) demo_heap demo_profile_large demo_computation
           demo_device demo_shape_size)) =
     [- 9223372036854775808, 1] \<and>
   \<not> rows_non_increasing
       (node_rows (demo_externals True 500) demo_heap demo_profile_large demo_computation
          demo_device demo_shape_size) \<and>
   row_usec
     (hd (node_rows (demo_externals True 500) demo_heap demo_profile_large demo_computation
            demo_device demo_shape_size)) < 0 \<and>
   0 < metric (table_entry demo_ops demo_heap (clock_rate_ghz demo_device)
                 (1, 0x8000000000000000))"
proof -
  have usec: "row_usec
     (hd (node_rows (demo_externals True 500) demo_heap demo_profile_large demo_computation
            demo_device demo_shape_size)) < 0"
    unfolding node_rows_def report_items_demo_large by (simp add: demo_defs)
  have entry: "0 < metric (table_entry demo_ops demo_heap (clock_rate_ghz demo_device)
                 (1, 0x8000000000000000))"
    by (simp add: demo_defs)
  have rows: "map sint
     (map row_cycles
        (node_rows (demo_externals True 500) demo_heap demo_profile_large demo_computation
           demo_device demo_shape_size)) =
     [- 9223372036854775808, 1]"
    by (simp add: node_rows_def report_items_demo_large)
  have order: "\<not> rows_non_increasing
       (node_rows (demo_externals True 500) demo_heap demo_profile_large demo_computation
          demo_device demo_shape_size)"
    by (simp add: node_rows_def report_items_demo_large rows_non_increasing_def)
  show ?thesis
    using usec entry rows order observations_demo_large
      report_items_demo_large [of True 500] demo_large_report_text
    by (intro conjI)
qed

text \<open>
  C3. When the cost analysis of the root instruction reports failure, \<^verbatim>\<open>ToString\<close> returns
  the empty string, whatever the store, the device description and the other inputs are.
\<close>

theorem C3_analysis_failure_gives_empty:
  assumes "root_instruction computation \<noteq> nullptr"
    and "\<not> analysis_status_ok (Accept x (root_instruction computation) shape_size)"
  shows "ToString x h p computation device_description shape_size = Inr ''''"
  using assms by (simp add: ToString_def)

theorem C3_analysis_failure_gives_empty_witness:
  "root_instruction demo_computation \<noteq> nullptr \<and>
   \<not> analysis_status_ok
       (Accept (demo_externals False 500) (root_instruction demo_computation) demo_shape_size) \<and>
   ToString (demo_externals False 500) demo_heap demo_profile demo_computation demo_device
     demo_shape_size = Inr ''''"
proof -
  have r: "root_instruction demo_computation \<noteq> nullptr"
    by (simp add: demo_computation_def nullptr_def)
  have a: "\<not> analysis_status_ok
       (Accept (demo_externals False 500) (root_instruction demo_computation) demo_shape_size)"
    by (simp add: demo_externals_def)
  show ?thesis
    using r a C3_analysis_failure_gives_empty [OF r a, of demo_heap demo_profile demo_device]
    by simp
qed

text \<open>
  C4, as amended. The first row of every report is the row \<open>[total]\<close>: its cycle count is
  the value of \<^verbatim>\<open>total_cycles_executed\<close>, its flop field is the sentinel \<open><none>\<close>, and its
  bytes-per-second and bytes-per-cycle fields are the sentinel \<open><unknown>\<close>.
\<close>

theorem C4_total_row_first:
  assumes "report_inputs_ok x p computation device_description shape_size"
  shows "ToString x h p computation device_description shape_size =
           Inr (header_of x computation device_description @
                render x (total_row_of x computation device_description) @
                concat (map (\<lambda>r. newline_tab @ render x r)
                          (node_rows x h p computation device_description shape_size)) @
                tail_of x h p computation device_description) \<and>
         row_cycles (total_row_of x computation device_description) =
           total_cycles_executed x (address computation) \<and>
         row_name (total_row_of x computation device_description) = ''[total]'' \<and>
         row_flops (total_row_of x computation device_description) = ''<none>'' \<and>
         row_bytes_per_sec (total_row_of x computation device_description) = ''<unknown>'' \<and>
         row_bytes_per_cycle (total_row_of x computation device_description) = ''<unknown>''"
  using ToString_report [OF assms, of h]
  by (simp add: flat_report_def total_row_of_def total_row_def make_row_def Let_def)

theorem C4_total_row_first_witness:
  "report_inputs_ok (demo_externals True 500) demo_profile demo_computation demo_device
     demo_shape_size \<and>
   ToString (demo_externals True 500) demo_heap demo_profile demo_computation demo_device
     demo_shape_size =
   Inr (''entry;#s;'' @
        ''500;#.#;#.#;<none>;<unknown>;<unknown>;[total];'' @ newline_tab @
        ''300;#.#;#.#;#FLOP/s;#B;#B;%b = dot(%x, %y);'' @ newline_tab @
        ''100;#.#;#.#;#FLOP/s;#B;#B;%a = add(%x, %y);'' @
        ''metric=microseconds;entry=ops;categories;'' @
        ''%b = dot(%x, %y)|%b = dot|dot;'' @
        ''%a = add(%x, %y)|%a = add|add;'') \<and>
   render (demo_externals True 500)
     (total_row_of (demo_externals True 500) demo_computation demo_device) =
     ''500;#.#;#.#;<none>;<unknown>;<unknown>;[total];''"
proof -
  have a: "report_inputs_ok (demo_externals True 500) demo_profile demo_computation demo_device
     demo_shape_size"
    by (rule demo_inputs_ok)
  have c: "render (demo_externals True 500)
     (total_row_of (demo_externals True 500) demo_computation demo_device) =
     ''500;#.#;#.#;<none>;<unknown>;<unknown>;[total];''"
    by (simp add: demo_defs)
  show ?thesis
    using a c demo_report_text C4_total_row_first [OF a, of demo_heap] by simp
qed

text \<open>
  The flop field of the total row is not the sentinel \<open><unknown>\<close> (C4 as first stated): the
  flop count \<open>-1\<close> of the total row is rendered as \<open><none>\<close>.
\<close>

theorem C4_total_row_flops_counterexample:
  "ToString (demo_externals True 500) demo_heap demo_profile demo_computation demo_device
     demo_shape_size =
   Inr (''entry;#s;'' @
        ''500;#.#;#.#;<none>;<unknown>;<unknown>;[total];'' @ newline_tab @
        ''300;#.#;#.#;#FLOP/s;#B;#B;%b = dot(%x, %y);'' @ newline_tab @
        ''100;#.#;#.#;#FLOP/s;#B;#B;%a = add(%x, %y);'' @
        ''metric=microseconds;entry=ops;categories;'' @
        ''%b = dot(%x, %y)|%b = dot|dot;'' @
        ''%a = add(%x, %y)|%a = add|add;'') \<and>
   row_flops (total_row_of (demo_externals True 500) demo_computation demo_device) =
     ''<none>'' \<and>
   row_flops (total_row_of (demo_externals True 500) demo_computation demo_device) \<noteq>
     ''<unknown>''"
  by (simp add: demo_report_text total_row_of_def total_row_def make_row_def Let_def)

text \<open>
  C5. Every row is built by \<open>make_row\<close> from the arguments of \<^verbatim>\<open>append_item\<close>. Provided
  \<^verbatim>\<open>HumanReadableNumBytes\<close> never yields the text \<open><unknown>\<close>, the two bandwidth fields of
  a row are both \<open><unknown>\<close> exactly when the cycle count of the row is at most 0 or its
  bytes-accessed value is negative; otherwise they are the formatted values of
  \<open>bytes / (nsecs / 1e9)\<close> and of the integer quotient \<open>bytes / cycles\<close>. With \<open>bytes = -1\<close>
  both are \<open><unknown>\<close> for every cycle count.
\<close>

theorem C5_bandwidth_fields:
  assumes "\<forall>n. HumanReadableNumBytes x n \<noteq> ''<unknown>''"
  shows "((row_bytes_per_sec (make_row x total_cycles clock_rate cycles flops bytes nm) =
             ''<unknown>'' \<and>
           row_bytes_per_cycle (make_row x total_cycles clock_rate cycles flops bytes nm) =
             ''<unknown>'') \<longleftrightarrow>
          (sint cycles \<le> 0 \<or> sint bytes < 0)) \<and>
         (0 < sint cycles \<and> 0 \<le> sint bytes \<longrightarrow>
            row_bytes_per_sec (make_row x total_cycles clock_rate cycles flops bytes nm) =
              HumanReadableNumBytes x
                (double_to_int64 (fp x)
                   (fdiv (fp x) (int64_to_double (fp x) bytes)
                      (fdiv (fp x) (fdiv (fp x) (int64_to_double (fp x) cycles) clock_rate)
                         (literal (fp x) 1 9)))) \<and>
            row_bytes_per_cycle (make_row x total_cycles clock_rate cycles flops bytes nm) =
              HumanReadableNumBytes x (word_of_int (sint bytes div sint cycles))) \<and>
         (bytes = - 1 \<longrightarrow>
            row_bytes_per_sec (make_row x total_cycles clock_rate cycles flops bytes nm) =
              ''<unknown>'' \<and>
            row_bytes_per_cycle (make_row x total_cycles clock_rate cycles flops bytes nm) =
              ''<unknown>'')"
  using assms by (auto simp: make_row_def Let_def int64_div_nonneg)

theorem C5_bandwidth_fields_witness:
  "(\<forall>n. HumanReadableNumBytes (demo_externals True 500) n \<noteq> ''<unknown>'') \<and>
   row_bytes_per_sec (make_row (demo_externals True 500) 500 1 300 2000 4096 ''%b'') = ''#B'' \<and>
   row_bytes_per_cycle (make_row (demo_externals True 500) 500 1 300 2000 4096 ''%b'') = ''#B'' \<and>
   row_bytes_per_sec (make_row (demo_externals True 500) 500 1 0 2000 4096 ''%b'') =
     ''<unknown>'' \<and>
   row_bytes_per_cycle (make_row (demo_externals True 500) 500 1 300 2000 (- 1) ''%b'') =
     ''<unknown>''"
proof -
  have a: "\<forall>n. HumanReadableNumBytes (demo_externals True 500) n \<noteq> ''<unknown>''"
    by (simp add: demo_externals_def)
  show ?thesis
    using a C5_bandwidth_fields [OF a, of 500 1 300 2000 4096 "''%b''"]
      C5_bandwidth_fields [OF a, of 500 1 0 2000 4096 "''%b''"]
      C5_bandwidth_fields [OF a, of 500 1 300 2000 "- 1" "''%b''"]
    by (simp add: demo_externals_def)
qed

text \<open>
  C6. When \<^verbatim>\<open>ToString\<close> produces a report: with \<^verbatim>\<open>total_cycles <= 0\<close> the report is the
  flat report followed by the zero-cycles marker and nothing else; otherwise it is the flat
  report followed by the text \<^verbatim>\<open>MakeReport\<close> gives for a table that received one
  \<^verbatim>\<open>AddEntry\<close> for each element of \<open>report_items\<close> (the observations of the queried
  computation, each once), with the full text, the compact text and the category of the
  node and with the microseconds of the node's stored cycle count as the metric.
\<close>

theorem C6_tail_of_report:
  assumes "report_inputs_ok x p computation device_description shape_size"
  shows "mset (report_items x h p computation) =
           mset (filter (\<lambda>item. parent (h (fst item)) = address computation) (observations p)) \<and>
         ToString x h p computation device_description shape_size =
           Inr (flat_report x (header_of x computation device_description)
                  (total_row_of x computation device_description)
                  (node_rows x h p computation device_description shape_size) @
                (if sint (total_cycles_executed x (address computation)) \<le> 0
                 then ''****** 0 total cycles ******'' @ [CHR 0x0A]
                 else MakeReport x
                        ([SetMetricName ''microseconds'', SetEntryName ''ops'',
                          SetShowCategoryTable] @
                         map (\<lambda>item.
                                AddEntry
                                  \<lparr>entry_text = ToString_full (h (fst item)),
                                   short_text = ToString_compact (h (fst item)),
                                   category_text = ToCategory (h (fst item)),
                                   metric =
                                     fdiv (fp x)
                                       (fdiv (fp x) (uint64_to_double (fp x) (snd item))
                                          (clock_rate_ghz device_description))
                                       (literal (fp x) 1000 0)\<rparr>)
                           (report_items x h p computation))
                        (fdiv (fp x)
                           (fdiv (fp x)
                              (int64_to_double (fp x)
                                 (total_cycles_executed x (address computation)))
                              (clock_rate_ghz device_description))
                           (literal (fp x) 1000 0))))"
proof -
  from assms have srt: "std_sort_contract (std_sort x)" by (simp add: report_inputs_ok_def)
  show ?thesis
    using ToString_report [OF assms, of h] contract_mset [OF srt]
    by (simp add: tail_of_def report_tail_def table_entry_def cycles_to_microseconds_def
        zero_cycles_marker_def report_items_def)
qed

theorem C6_tail_of_report_witness:
  "report_inputs_ok (demo_externals True 0) demo_profile demo_computation demo_device
     demo_shape_size \<and>
   ToString (demo_externals True 0) demo_heap demo_profile demo_computation demo_device
     demo_shape_size =
   Inr (''entry;#s;'' @
        ''0;#.#;#.#;<none>;<unknown>;<unknown>;[total];'' @ newline_tab @
        ''300;#.#;#.#;#FLOP/s;#B;#B;%b = dot(%x, %y);'' @ newline_tab @
        ''100;#.#;#.#;#FLOP/s;#B;#B;%a = add(%x, %y);'' @
        ''****** 0 total cycles ******'' @ [CHR 0x0A]) \<and>
   report_inputs_ok (demo_externals True 500) demo_profile demo_computation demo_device
     demo_shape_size \<and>
   ToString (demo_externals True 500) demo_heap demo_profile demo_computation demo_device
     demo_shape_size =
   Inr (''entry;#s;'' @
        ''500;#.#;#.#;<none>;<unknown>;<unknown>;[total];'' @ newline_tab @
        ''300;#.#;#.#;#FLOP/s;#B;#B;%b = dot(%x, %y);'' @ newline_tab @
        ''100;#.#;#.#;#FLOP/s;#B;#B;%a = add(%x, %y);'' @
        ''metric=microseconds;entry=ops;categories;'' @
        ''%b = dot(%x, %y)|%b = dot|dot;'' @
        ''%a = add(%x, %y)|%a = add|add;'') \<and>
   map (\<lambda>item. metric (table_entry demo_ops demo_heap (clock_rate_ghz demo_device) item))
     (report_items (demo_externals True 500) demo_heap demo_profile demo_computation) =
     [3 / 10, 1 / 10]"
proof -
  have a: "report_inputs_ok (demo_externals True 0) demo_profile demo_computation demo_device
     demo_shape_size"
    by (rule demo_inputs_ok)
  have b: "report_inputs_ok (demo_externals True 500) demo_profile demo_computation demo_device
     demo_shape_size"
    by (rule demo_inputs_ok)
  have c: "map (\<lambda>item. metric (table_entry demo_ops demo_heap (clock_rate_ghz demo_device) item))
     (report_items (demo_externals True 500) demo_heap demo_profile demo_computation) =
     [3 / 10, 1 / 10]"
    unfolding report_items_demo by (simp add: demo_defs)
  show ?thesis
    using a b c demo_report_text demo_report_text_zero
      C6_tail_of_report [OF a, of demo_heap] C6_tail_of_report [OF b, of demo_heap]
    by simp
qed

text \<open>
  C7. For every node and every non-empty sequence of \<^verbatim>\<open>AddProfileResult\<close> calls for that
  node, made on any profile, the calls return and \<^verbatim>\<open>GetProfileResult\<close> then gives the cycle
  count of the last call: a later call overwrites, it does not add up.
\<close>

theorem C7_last_write_wins:
  assumes "hlo \<noteq> nullptr" and "cs \<noteq> []"
  shows "\<exists>p'. run x h p (map (OpAddProfileResult hlo) cs) = Inr p' \<and>
              GetProfileResult p' hlo = last cs"
proof -
  obtain p' where p': "run x h p (map (OpAddProfileResult hlo) cs) = Inr p'"
    using run_adds_returns [OF assms(1)] by blast
  from GetProfileResult_run [OF p', of hlo] assms(2) have "GetProfileResult p' hlo = last cs"
    by (simp add: cycles_added_same)
  with p' show ?thesis by blast
qed

theorem C7_last_write_wins_witness:
  "(1::nat) \<noteq> nullptr \<and> [100, 300 :: uint64] \<noteq> [] \<and>
   (\<exists>p'. run (demo_externals True 500) demo_heap demo_profile
            (map (OpAddProfileResult 1) [100, 300]) = Inr p' \<and>
         GetProfileResult p' 1 = 300)"
proof -
  have a: "(1::nat) \<noteq> nullptr" by (simp add: nullptr_def)
  have b: "[100, 300 :: uint64] \<noteq> []" by simp
  show ?thesis
    using a b C7_last_write_wins [OF a b, of "demo_externals True 500" demo_heap demo_profile]
    by simp
qed

text \<open>
  C8. After any history of operations on a fresh profile, \<^verbatim>\<open>GetProfileResult\<close> of a node is
  0 when the history holds no \<^verbatim>\<open>AddProfileResult\<close> for that node, and the count of the last
  such call otherwise. It is a total function, and its result is 0 exactly when the node
  has no entry or has the entry 0, so the two cannot be told apart.
\<close>

theorem C8_absent_is_zero:
  assumes "run x h empty_profile ops = Inr p"
  shows "GetProfileResult p hlo =
           (if cycles_added hlo ops = [] then 0 else last (cycles_added hlo ops)) \<and>
         (GetProfileResult p hlo = 0 \<longleftrightarrow>
            DAList.lookup (hlo_to_cycles_taken p) hlo = None \<or>
            DAList.lookup (hlo_to_cycles_taken p) hlo = Some 0)"
  using GetProfileResult_run [OF assms, of hlo]
  by (auto simp: GetProfileResult_def empty_profile_def split: option.splits)

theorem C8_absent_is_zero_witness:
  "run (demo_externals True 500) demo_heap empty_profile
     [OpAddProfileResult 1 100, OpAddProfileResult 2 0] =
     Inr \<lparr>hlo_to_cycles_taken = DAList.update 2 0 (DAList.update 1 100 DAList.empty),
          profiled_computations = {10}\<rparr> \<and>
   GetProfileResult
     \<lparr>hlo_to_cycles_taken = DAList.update 2 0 (DAList.update 1 100 DAList.empty),
      profiled_computations = {10}\<rparr> 3 = 0 \<and>
   GetProfileResult
     \<lparr>hlo_to_cycles_taken = DAList.update 2 0 (DAList.update 1 100 DAList.empty),
      profiled_computations = {10}\<rparr> 2 = 0 \<and>
   GetProfileResult
     \<lparr>hlo_to_cycles_taken = DAList.update 2 0 (DAList.update 1 100 DAList.empty),
      profiled_computations = {10}\<rparr> 1 = 100"
proof -
  have r: "run (demo_externals True 500) demo_heap empty_profile
       [OpAddProfileResult 1 100, OpAddProfileResult 2 0] =
     Inr \<lparr>hlo_to_cycles_taken = DAList.update 2 0 (DAList.update 1 100 DAList.empty),
          profiled_computations = {10}\<rparr>"
    by (simp add: AddProfileResult_def empty_profile_def nullptr_def demo_heap_def Let_def)
  show ?thesis
    using r C8_absent_is_zero [OF r, of 3] C8_absent_is_zero [OF r, of 2]
      C8_absent_is_zero [OF r, of 1]
    by simp
qed

text \<open>
  C9. When \<^verbatim>\<open>AddProfileResult(hlo, cycles)\<close> returns, the parent computation of \<open>hlo\<close> is in
  \<^verbatim>\<open>profiled_computations_\<close>, and it is still there after any further operations on the
  profile.
\<close>

theorem C9_parent_touched:
  assumes "AddProfileResult h p hlo cycles_taken = Inr p1" and "run x h p1 ops = Inr p2"
  shows "parent (h hlo) \<in> profiled_computations p1 \<and> parent (h hlo) \<in> profiled_computations p2"
proof -
  from assms(1) have "parent (h hlo) \<in> profiled_computations p1"
    by (auto simp: AddProfileResult_def Let_def split: if_splits)
  with profiled_run [OF assms(2)] show ?thesis by blast
qed

theorem C9_parent_touched_witness:
  "AddProfileResult demo_heap empty_profile 1 100 =
     Inr \<lparr>hlo_to_cycles_taken = DAList.update 1 100 DAList.empty, profiled_computations = {10}\<rparr> \<and>
   run (demo_externals True 500) demo_heap
     \<lparr>hlo_to_cycles_taken = DAList.update 1 100 DAList.empty, profiled_computations = {10}\<rparr>
     [OpGetProfileResult 1, OpAddProfileResult 3 50] =
     Inr \<lparr>hlo_to_cycles_taken = DAList.update 3 50 (DAList.update 1 100 DAList.empty),
          profiled_computations = {20, 10}\<rparr> \<and>
   parent (demo_heap 1) \<in> {10} \<and> parent (demo_heap 1) \<in> {20, 10 :: nat}"
proof -
  have a: "AddProfileResult demo_heap empty_profile 1 100 =
     Inr \<lparr>hlo_to_cycles_taken = DAList.update 1 100 DAList.empty, profiled_computations = {10}\<rparr>"
    by (simp add: AddProfileResult_def empty_profile_def nullptr_def demo_heap_def Let_def)
  have r: "run (demo_externals True 500) demo_heap
     \<lparr>hlo_to_cycles_taken = DAList.update 1 100 DAList.empty, profiled_computations = {10}\<rparr>
     [OpGetProfileResult 1, OpAddProfileResult 3 50] =
     Inr \<lparr>hlo_to_cycles_taken = DAList.update 3 50 (DAList.update 1 100 DAList.empty),
          profiled_computations = {20, 10}\<rparr>"
    by (simp add: AddProfileResult_def nullptr_def demo_heap_def Let_def)
  show ?thesis using a r C9_parent_touched [OF a r] by simp
qed

text \<open>
  C10. \<^verbatim>\<open>GetProfileResult\<close> and \<^verbatim>\<open>ToString\<close> are read-only: after any number of such calls
  the stored cycle count of every node and the set of profiled computations are as before.
  \<^verbatim>\<open>AddProfileResult(a, c)\<close> leaves the stored cycle count of every other node as it was.
\<close>

theorem C10_frame:
  "(list_all read_only ops \<and> run x h p ops = Inr p' \<longrightarrow>
      GetProfileResult p' b = GetProfileResult p b \<and>
      profiled_computations p' = profiled_computations p) \<and>
   (b \<noteq> a \<and> AddProfileResult h p a c = Inr p'' \<longrightarrow>
      GetProfileResult p'' b = GetProfileResult p b)"
  using run_read_only [of ops x h p p'] GetProfileResult_Add [of h p a c p'' b]
  by auto

theorem C10_frame_witness:
  "list_all read_only
     [OpGetProfileResult 1, OpToString demo_computation demo_device demo_shape_size,
      OpGetProfileResult 3] \<and>
   run (demo_externals True 500) demo_heap demo_profile
     [OpGetProfileResult 1, OpToString demo_computation demo_device demo_shape_size,
      OpGetProfileResult 3] = Inr demo_profile \<and>
   (2::nat) \<noteq> 1 \<and>
   AddProfileResult demo_heap demo_profile 1 7 =
     Inr (demo_profile\<lparr>hlo_to_cycles_taken := DAList.update 1 7 (hlo_to_cycles_taken demo_profile),
                       profiled_computations := insert 10 (profiled_computations demo_profile)\<rparr>) \<and>
   GetProfileResult
     (demo_profile\<lparr>hlo_to_cycles_taken := DAList.update 1 7 (hlo_to_cycles_taken demo_profile),
                    profiled_computations := insert 10 (profiled_computations demo_profile)\<rparr>) 2 =
     GetProfileResult demo_profile 2"
proof -
  have r: "run (demo_externals True 500) demo_heap demo_profile
     [OpGetProfileResult 1, OpToString demo_computation demo_device demo_shape_size,
      OpGetProfileResult 3] = Inr demo_profile"
    by (simp add: demo_report_text)
  have a: "AddProfileResult demo_heap demo_profile 1 7 =
     Inr (demo_profile\<lparr>hlo_to_cycles_taken := DAList.update 1 7 (hlo_to_cycles_taken demo_profile),
                       profiled_computations := insert 10 (profiled_computations demo_profile)\<rparr>)"
    by (simp add: AddProfileResult_def nullptr_def demo_heap_def Let_def)
  show ?thesis
    using r a
      C10_frame [of "[OpGetProfileResult 1,
          OpToString demo_computation demo_device demo_shape_size, OpGetProfileResult 3]"
        "demo_externals True 500" demo_heap demo_profile demo_profile 2 1 7
        "demo_profile\<lparr>hlo_to_cycles_taken := DAList.update 1 7 (hlo_to_cycles_taken demo_profile),
                       profiled_computations := insert 10 (profiled_computations demo_profile)\<rparr>"]
    by simp
qed

end
